theory Spec2Isabelle
  imports Complex_Main "HOL-Library.Sublist"
begin

section \<open>Python values\<close>

text \<open>
  A Python \<open>str\<close> is a sequence of Unicode code points, and \<open>len\<close>, \<open>strip\<close> and
  \<open>replace\<close> work on code points. HOL's \<open>char\<close> is a byte, so a \<open>str\<close> is modelled as
  the list of its code points; \<open>ascii\<close> embeds an ASCII literal.
\<close>

type_synonym ustr = "nat list"

definition ascii :: "string \<Rightarrow> ustr" where
  "ascii s = map of_char s"

text \<open>
  A Python \<open>float\<close> is modelled by the rational number that the IEEE double denotes.
  The program never computes with floats: it compares one with zero (truthiness), hands
  them on, and prints one with \<open>.4f\<close>, which rounds the exact value. Infinities, NaN and
  the sign of a negative zero have no counterpart here.
\<close>

type_synonym pyfloat = rat

text \<open>Truthiness, as \<open>if x\<close>, \<open>not x\<close> and \<open>x or y\<close> test it; \<open>None\<close> is falsy.\<close>

definition truthy_str :: "ustr option \<Rightarrow> bool" where
  "truthy_str v = (case v of None \<Rightarrow> False | Some s \<Rightarrow> s \<noteq> [])"

definition truthy_list :: "'a list option \<Rightarrow> bool" where
  "truthy_list v = (case v of None \<Rightarrow> False | Some xs \<Rightarrow> xs \<noteq> [])"

definition or_int :: "int option \<Rightarrow> int \<Rightarrow> int" where
  \<comment> \<open>\<open>x or d\<close> for an optional integer: \<open>None\<close> and \<open>0\<close> are falsy\<close>
  "or_int x d = (case x of None \<Rightarrow> d | Some i \<Rightarrow> if i = 0 then d else i)"

definition or_float :: "pyfloat option \<Rightarrow> pyfloat \<Rightarrow> pyfloat" where
  \<comment> \<open>\<open>x or d\<close> for an optional float: \<open>None\<close> and \<open>0.0\<close> are falsy\<close>
  "or_float x d = (case x of None \<Rightarrow> d | Some r \<Rightarrow> if r = 0 then d else r)"

definition or_str :: "ustr option \<Rightarrow> ustr \<Rightarrow> ustr" where
  \<comment> \<open>\<open>x or d\<close> for an optional string: \<open>None\<close> and the empty string are falsy\<close>
  "or_str x d = (case x of None \<Rightarrow> d | Some s \<Rightarrow> if s = [] then d else s)"

subsection \<open>String methods\<close>

definition isspace :: "nat \<Rightarrow> bool" where
  \<comment> \<open>the code points that \<open>str.strip()\<close> removes (those with \<open>str.isspace\<close>)\<close>
  "isspace c =
     ((9 \<le> c \<and> c \<le> 13) \<or> (28 \<le> c \<and> c \<le> 32) \<or> c = 133 \<or> c = 160 \<or> c = 5760
      \<or> (8192 \<le> c \<and> c \<le> 8202) \<or> c = 8232 \<or> c = 8233 \<or> c = 8239 \<or> c = 8287
      \<or> c = 12288)"

definition strip :: "ustr \<Rightarrow> ustr" where
  "strip s = rev (dropWhile isspace (rev (dropWhile isspace s)))"

definition replace :: "nat \<Rightarrow> ustr \<Rightarrow> ustr \<Rightarrow> ustr" where
  \<comment> \<open>\<open>s.replace(old, new)\<close> for a pattern \<open>old\<close> of one character\<close>
  "replace old new s = concat (map (\<lambda>c. if c = old then new else [c]) s)"

fun join :: "ustr \<Rightarrow> ustr list \<Rightarrow> ustr" where
  "join sep [] = []"
| "join sep [x] = x"
| "join sep (x # y # ys) = x @ sep @ join sep (y # ys)"

subsection \<open>Number formatting\<close>

function str_nat :: "nat \<Rightarrow> ustr" where
  "str_nat n = (if n < 10 then [48 + n] else str_nat (n div 10) @ [48 + n mod 10])"
  by pat_completeness auto
termination
  by (relation "measure id") auto

declare str_nat.simps [simp del]

function group_thousands :: "ustr \<Rightarrow> ustr" where
  "group_thousands ds =
     (if length ds \<le> 3 then ds
      else group_thousands (take (length ds - 3) ds) @ [44] @ drop (length ds - 3) ds)"
  by pat_completeness auto
termination
  by (relation "measure length") auto

declare group_thousands.simps [simp del]

definition format_int_comma :: "int \<Rightarrow> ustr" where
  \<comment> \<open>\<open>f"{i:,}"\<close> for an \<open>int\<close>: the decimal digits in groups of three, a sign if negative\<close>
  "format_int_comma i =
     (if i < 0 then [45] else []) @ group_thousands (str_nat (nat \<bar>i\<bar>))"

definition round_half_even :: "rat \<Rightarrow> int" where
  "round_half_even y =
     (let f = \<lfloor>y\<rfloor>; r = y - of_int f
      in if r < 1 / 2 then f
         else if 1 / 2 < r then f + 1
         else if even f then f else f + 1)"

definition zero_pad :: "nat \<Rightarrow> ustr \<Rightarrow> ustr" where
  "zero_pad w ds = replicate (w - length ds) 48 @ ds"

definition format_4f :: "pyfloat \<Rightarrow> ustr" where
  \<comment> \<open>\<open>f"{x:.4f}"\<close>: the exact value rounded to four decimals, ties to even\<close>
  "format_4f x =
     (let n = nat (round_half_even (\<bar>x\<bar> * 10000))
      in (if x < 0 then [45] else []) @ str_nat (n div 10000) @ [46]
         @ zero_pad 4 (str_nat (n mod 10000)))"

subsection \<open>Exceptions and effects\<close>

text \<open>
  An exception is a value carrying what \<open>str(e)\<close> gives. All three classes derive from
  \<open>Exception\<close>; \<open>RemoteError\<close> stands for whatever a client library raises on a failed
  call (network, authentication, quota, a malformed query or response).
\<close>

datatype exn = ValueError ustr | IndexError ustr | RemoteError ustr

fun str_exn :: "exn \<Rightarrow> ustr" where
  "str_exn (ValueError m) = m"
| "str_exn (IndexError m) = m"
| "str_exn (RemoteError m) = m"

section \<open>Configuration (config.py)\<close>

text \<open>
  The environment, as \<open>os.getenv\<close> sees it once \<open>load_dotenv\<close> has read the \<open>.env\<close>
  file: a variable is unset or holds a string.
\<close>

type_synonym environ = "ustr \<rightharpoonup> ustr"

definition getenv :: "environ \<Rightarrow> ustr \<Rightarrow> ustr option" where
  \<comment> \<open>\<open>os.getenv(key)\<close>: \<open>None\<close> for an unset variable\<close>
  "getenv env key = env key"

definition getenv_default :: "environ \<Rightarrow> ustr \<Rightarrow> ustr \<Rightarrow> ustr" where
  \<comment> \<open>\<open>os.getenv(key, default)\<close>\<close>
  "getenv_default env key dflt = (case env key of None \<Rightarrow> dflt | Some v \<Rightarrow> v)"

text \<open>The attributes of the class \<open>Config\<close> that are read from the environment.\<close>

record config =
  AZURE_OPENAI_ENDPOINT :: "ustr option"
  AZURE_OPENAI_API_KEY :: "ustr option"
  AZURE_OPENAI_API_VERSION :: ustr
  AZURE_OPENAI_DEPLOYMENT_NAME :: ustr
  AZURE_OPENAI_VISION_DEPLOYMENT_NAME :: ustr
  AZURE_OPENAI_EMBEDDING_DEPLOYMENT_NAME :: ustr
  AZURE_SEARCH_SERVICE_ENDPOINT :: "ustr option"
  AZURE_SEARCH_INDEX_NAME :: ustr
  EMBEDDING_DIMENSION :: int

text \<open>
  The body of the class, run when the module is imported. Its one statement that can
  raise is the conversion \<open>int(os.getenv("EMBEDDING_DIMENSION", "1536"))\<close>; the built-in
  \<open>int\<close> is a parameter, giving the \<open>ValueError\<close> or the integer for a string.
\<close>

definition Config_class :: "(ustr \<Rightarrow> exn + int) \<Rightarrow> environ \<Rightarrow> exn + config" where
  "Config_class int_builtin env =
     (case int_builtin (getenv_default env (ascii ''EMBEDDING_DIMENSION'') (ascii ''1536'')) of
        Inl e \<Rightarrow> Inl e
      | Inr dimension \<Rightarrow>
          Inr \<lparr>AZURE_OPENAI_ENDPOINT = getenv env (ascii ''AZURE_OPENAI_ENDPOINT''),
               AZURE_OPENAI_API_KEY = getenv env (ascii ''AZURE_OPENAI_API_KEY''),
               AZURE_OPENAI_API_VERSION =
                 getenv_default env (ascii ''AZURE_OPENAI_API_VERSION'') (ascii ''2024-10-21''),
               AZURE_OPENAI_DEPLOYMENT_NAME =
                 getenv_default env (ascii ''AZURE_OPENAI_DEPLOYMENT_NAME'') (ascii ''gpt-4''),
               AZURE_OPENAI_VISION_DEPLOYMENT_NAME =
                 getenv_default env (ascii ''AZURE_OPENAI_VISION_DEPLOYMENT_NAME'')
                   (ascii ''gpt-4o''),
               AZURE_OPENAI_EMBEDDING_DEPLOYMENT_NAME =
                 getenv_default env (ascii ''AZURE_OPENAI_EMBEDDING_DEPLOYMENT_NAME'')
                   (ascii ''text-embedding-ada-002''),
               AZURE_SEARCH_SERVICE_ENDPOINT =
                 getenv env (ascii ''AZURE_SEARCH_SERVICE_ENDPOINT''),
               AZURE_SEARCH_INDEX_NAME =
                 getenv_default env (ascii ''AZURE_SEARCH_INDEX_NAME'') (ascii ''products-index''),
               EMBEDDING_DIMENSION = dimension\<rparr>)"

definition MAX_SEARCH_RESULTS :: int where
  "MAX_SEARCH_RESULTS = 5"

definition DEFAULT_TEMPERATURE :: pyfloat where
  \<comment> \<open>the double that the literal \<open>0.7\<close> denotes\<close>
  "DEFAULT_TEMPERATURE = 3152519739159347 / 4503599627370496"

definition MAX_TOKENS :: int where
  "MAX_TOKENS = 1000"

definition required_fields :: "(ustr \<times> (config \<Rightarrow> ustr option)) list" where
  \<comment> \<open>each required name with what \<open>getattr(cls, field)\<close> reads\<close>
  "required_fields =
     [(ascii ''AZURE_OPENAI_ENDPOINT'', AZURE_OPENAI_ENDPOINT),
      (ascii ''AZURE_OPENAI_API_KEY'', AZURE_OPENAI_API_KEY),
      (ascii ''AZURE_SEARCH_SERVICE_ENDPOINT'', AZURE_SEARCH_SERVICE_ENDPOINT)]"

definition missing_fields :: "config \<Rightarrow> ustr list" where
  "missing_fields cls =
     map fst (filter (\<lambda>(field, getattr). \<not> truthy_str (getattr cls)) required_fields)"

definition validate :: "config \<Rightarrow> exn + bool" where
  "validate cls =
     (if missing_fields cls \<noteq> []
      then Inl (ValueError (ascii ''Missing required configuration: ''
                  @ join (ascii '', '') (missing_fields cls)))
      else Inr True)"

definition config_ok_line :: ustr where
  \<comment> \<open>the line printed when validation passes (a check mark, then "Configuration loaded successfully")\<close>
  "config_ok_line =
     [9989, 32, 67, 111, 110, 102, 105, 103, 117, 114, 97, 116, 105, 111, 110, 32, 108, 111,
      97, 100, 101, 100, 32, 115, 117, 99, 99, 101, 115, 115, 102, 117, 108, 108, 121]"

definition config_warning_prefix :: ustr where
  \<comment> \<open>a warning sign, then "Configuration warning: "\<close>
  "config_warning_prefix =
     [9888, 65039, 32, 67, 111, 110, 102, 105, 103, 117, 114, 97, 116, 105, 111, 110, 32,
      119, 97, 114, 110, 105, 110, 103, 58, 32]"

text \<open>
  The module as a whole, run once when it is first imported: the class body, and then the
  statements at the end, the call of \<open>validate\<close> in a \<open>try\<close> whose handler catches
  \<open>ValueError\<close> and prints. The result is the exception that leaves the module, or the
  class it defines, and the lines printed.
\<close>

definition config_module :: "(ustr \<Rightarrow> exn + int) \<Rightarrow> environ \<Rightarrow> (exn + config) \<times> ustr list" where
  "config_module int_builtin env =
     (case Config_class int_builtin env of
        Inl e \<Rightarrow> (Inl e, [])
      | Inr cls \<Rightarrow>
          (case validate cls of
             Inr _ \<Rightarrow> (Inr cls, [config_ok_line])
           | Inl (ValueError e) \<Rightarrow> (Inr cls, [config_warning_prefix @ e])
           | Inl e \<Rightarrow> (Inl e, [])))"

section \<open>Backends, requests and the trace of calls\<close>

record embeddings_request =
  emb_input :: "ustr list"
  emb_model :: ustr

text \<open>
  \<open>entry\<close> is what a payload holds under a key: nothing, \<open>null\<close>, or a value. The values
  are typed as the catalog schema types them.
\<close>

datatype 'a entry = Missing | Null | Val 'a

fun dict_get :: "'a entry \<Rightarrow> 'a option" where
  \<comment> \<open>\<open>d.get(key)\<close>\<close>
  "dict_get Missing = None"
| "dict_get Null = None"
| "dict_get (Val v) = Some v"

fun dict_get_default :: "'a entry \<Rightarrow> 'a \<Rightarrow> 'a option" where
  \<comment> \<open>\<open>d.get(key, default)\<close>: the default stands in for a missing key only\<close>
  "dict_get_default Missing d = Some d"
| "dict_get_default Null d = None"
| "dict_get_default (Val v) d = Some v"

text \<open>
  One result of the search backend. The code reads it with \<open>.get\<close>: it is a dictionary,
  holding the selected fields under their names and, as the search client delivers it,
  the relevance score of the query under the key \<open>@search.score\<close> and the reranker score
  under \<open>@search.reranker_score\<close>.
\<close>

record search_document =
  doc_id :: "ustr entry"
  doc_name :: "ustr entry"
  doc_brand :: "ustr entry"
  doc_description :: "ustr entry"
  doc_price :: "int entry"
  doc_imageUrl :: "ustr entry"
  doc_imageCaption :: "ustr entry"
  doc_imageDescription :: "ustr entry"
  doc_imageTags :: "ustr list entry"
  doc_search_score :: "pyfloat entry"
  doc_search_reranker_score :: "pyfloat entry"

definition getattr_none :: "search_document \<Rightarrow> ustr \<Rightarrow> pyfloat option" where
  \<comment> \<open>\<open>getattr(result, name, None)\<close> for the two names the code asks for. It looks for an
      attribute of the dictionary object, and the keys of a dictionary are not attributes
      of it: whatever the dictionary holds, the default comes back.\<close>
  "getattr_none result attr_name = None"

text \<open>The dictionary that \<open>_process_results\<close> builds: all eleven keys are present.\<close>

record product =
  id_key :: "ustr option"
  name :: "ustr option"
  brand :: "ustr option"
  description :: "ustr option"
  price :: "int option"
  imageUrl :: "ustr option"
  imageCaption :: "ustr option"
  imageDescription :: "ustr option"
  imageTags :: "ustr list option"
  score :: "pyfloat option"
  reranker_score :: "pyfloat option"

record chat_message =
  role :: ustr
  content :: ustr
  product_key :: "product option"

record chat_request =
  model :: ustr
  messages :: "chat_message list"
  temperature :: pyfloat
  max_tokens :: int

record vectorized_query =
  vector :: "pyfloat list"
  k_nearest_neighbors :: int
  vq_fields :: ustr

text \<open>The keyword arguments of \<open>search_client.search\<close>; \<open>top_param\<close> is its \<open>top\<close>.\<close>

record search_params =
  search_text :: "ustr option"
  vector_queries :: "vectorized_query list option"
  select :: "ustr list"
  top_param :: int
  search_fields :: "ustr list option"

text \<open>
  The clients and the deployment names the two service objects hold. A client call
  either raises or returns: the embedding response is its \<open>data\<close> (one vector per
  item), the completion response its \<open>choices\<close> (the content of each), the search
  response the documents that iterating it yields.
\<close>

record services =
  embeddings_create :: "embeddings_request \<Rightarrow> exn + pyfloat list list"
  chat_completions_create :: "chat_request \<Rightarrow> exn + ustr list"
  search_client_search :: "search_params \<Rightarrow> exn + search_document list"
  gpt_deployment :: ustr
  embedding_deployment :: ustr

datatype event =
    EmbeddingsCreate embeddings_request
  | ChatCompletionsCreate chat_request
  | Search search_params
  | StError ustr

text \<open>A Python call: what it raises or returns, and the calls and notices it made.\<close>

type_synonym 'a io = "(exn + 'a) \<times> event list"

definition bind_io :: "'a io \<Rightarrow> ('a \<Rightarrow> 'b io) \<Rightarrow> 'b io" where
  \<comment> \<open>one statement after another: an exception skips what follows\<close>
  "bind_io m f =
     (case m of
        (Inl e, ev) \<Rightarrow> (Inl e, ev)
      | (Inr v, ev) \<Rightarrow> (case f v of (r, ev') \<Rightarrow> (r, ev @ ev')))"

definition try_except :: "'a io \<Rightarrow> (exn \<Rightarrow> 'a io) \<Rightarrow> 'a io" where
  \<comment> \<open>\<open>try: body except Exception as e: handler\<close>\<close>
  "try_except body handler =
     (case body of
        (Inr v, ev) \<Rightarrow> (Inr v, ev)
      | (Inl e, ev) \<Rightarrow> (case handler e of (r, ev') \<Rightarrow> (r, ev @ ev')))"

definition st_error :: "ustr \<Rightarrow> unit io" where
  "st_error msg = (Inr (), [StError msg])"

definition embedding_requests :: "event list \<Rightarrow> embeddings_request list" where
  "embedding_requests ev = concat (map (\<lambda>e. case e of EmbeddingsCreate r \<Rightarrow> [r] | _ \<Rightarrow> []) ev)"

definition chat_requests :: "event list \<Rightarrow> chat_request list" where
  "chat_requests ev =
     concat (map (\<lambda>e. case e of ChatCompletionsCreate r \<Rightarrow> [r] | _ \<Rightarrow> []) ev)"

definition search_requests :: "event list \<Rightarrow> search_params list" where
  "search_requests ev = concat (map (\<lambda>e. case e of Search r \<Rightarrow> [r] | _ \<Rightarrow> []) ev)"

definition st_errors :: "event list \<Rightarrow> ustr list" where
  "st_errors ev = concat (map (\<lambda>e. case e of StError m \<Rightarrow> [m] | _ \<Rightarrow> []) ev)"

section \<open>The OpenAI service (services/openai_service.py)\<close>

definition get_embedding :: "services \<Rightarrow> ustr \<Rightarrow> (pyfloat list) io" where
  "get_embedding self text =
     (let text' = strip (replace 10 [32] text);
          request = \<lparr>emb_input = [text'], emb_model = embedding_deployment self\<rparr>
      in (case embeddings_create self request of
            Inl e \<Rightarrow> Inl e
          | Inr data \<Rightarrow>
              (case data of
                 [] \<Rightarrow> Inl (IndexError (ascii ''list index out of range''))
               | embedding # _ \<Rightarrow> Inr embedding),
          [EmbeddingsCreate request]))"

definition chat_completion ::
  "services \<Rightarrow> chat_message list \<Rightarrow> pyfloat option \<Rightarrow> int option \<Rightarrow> ustr io" where
  "chat_completion self msgs temp max_toks =
     (let temp' = or_float temp DEFAULT_TEMPERATURE;
          max_toks' = or_int max_toks MAX_TOKENS;
          request = \<lparr>model = gpt_deployment self, messages = msgs,
                     temperature = temp', max_tokens = max_toks'\<rparr>
      in (case chat_completions_create self request of
            Inl e \<Rightarrow> Inl e
          | Inr choices \<Rightarrow>
              (case choices of
                 [] \<Rightarrow> Inl (IndexError (ascii ''list index out of range''))
               | c # _ \<Rightarrow> Inr c),
          [ChatCompletionsCreate request]))"

section \<open>The search service (services/azure_search_service.py)\<close>

definition select_fields :: "ustr list" where
  "select_fields =
     [ascii ''id'', ascii ''name'', ascii ''brand'', ascii ''description'', ascii ''price'',
      ascii ''imageUrl'', ascii ''imageCaption'', ascii ''imageDescription'',
      ascii ''imageTags'']"

definition process_results :: "search_document list \<Rightarrow> product list" where
  "process_results results =
     map (\<lambda>result.
            \<lparr>id_key = dict_get (doc_id result),
             name = dict_get (doc_name result),
             brand = dict_get (doc_brand result),
             description = dict_get (doc_description result),
             price = dict_get (doc_price result),
             imageUrl = dict_get (doc_imageUrl result),
             imageCaption = dict_get (doc_imageCaption result),
             imageDescription = dict_get (doc_imageDescription result),
             imageTags = dict_get_default (doc_imageTags result) [],
             score = getattr_none result (ascii ''@search.score''),
             reranker_score = getattr_none result (ascii ''@search.reranker_score'')\<rparr>)
         results"

definition run_search :: "services \<Rightarrow> search_params \<Rightarrow> (product list) io" where
  \<comment> \<open>\<open>results = self.search_client.search(...)\<close>, then \<open>self._process_results(results)\<close>\<close>
  "run_search self params =
     (case search_client_search self params of
        Inl e \<Rightarrow> (Inl e, [Search params])
      | Inr results \<Rightarrow> (Inr (process_results results), [Search params]))"

definition get_all_products :: "services \<Rightarrow> int \<Rightarrow> (product list) io" where
  "get_all_products self top_k =
     run_search self
       \<lparr>search_text = Some (ascii ''*''), vector_queries = None, select = select_fields,
        top_param = top_k, search_fields = None\<rparr>"

definition keyword_search ::
  "services \<Rightarrow> ustr \<Rightarrow> ustr list option \<Rightarrow> int option \<Rightarrow> (product list) io" where
  "keyword_search self query flds top_k =
     (let top_k' = or_int top_k MAX_SEARCH_RESULTS
      in run_search self
           \<lparr>search_text = Some query, vector_queries = None, select = select_fields,
            top_param = top_k', search_fields = (if truthy_list flds then flds else None)\<rparr>)"

definition hybrid_search ::
  "services \<Rightarrow> ustr \<Rightarrow> ustr list option \<Rightarrow> int option \<Rightarrow> (product list) io" where
  "hybrid_search self query flds top_k =
     (let top_k' = or_int top_k MAX_SEARCH_RESULTS
      in bind_io (get_embedding self query) (\<lambda>query_embedding.
           let vector_query = \<lparr>vector = query_embedding, k_nearest_neighbors = top_k',
                                vq_fields = ascii ''descriptionVector''\<rparr>
           in run_search self
                \<lparr>search_text = Some query, vector_queries = Some [vector_query],
                 select = select_fields, top_param = top_k',
                 search_fields = (if truthy_list flds then flds else None)\<rparr>))"

definition vector_search ::
  "services \<Rightarrow> ustr \<Rightarrow> ustr list option \<Rightarrow> int option \<Rightarrow> (product list) io" where
  "vector_search self query flds top_k =
     (let top_k' = or_int top_k MAX_SEARCH_RESULTS
      in bind_io (get_embedding self query) (\<lambda>query_embedding.
           let vector_query = \<lparr>vector = query_embedding, k_nearest_neighbors = top_k',
                                vq_fields = ascii ''descriptionVector''\<rparr>
           in run_search self
                \<lparr>search_text = None, vector_queries = Some [vector_query],
                 select = select_fields, top_param = top_k', search_fields = None\<rparr>))"

section \<open>The application (app.py)\<close>

definition ALL_SEARCH_FIELDS :: "ustr list" where
  "ALL_SEARCH_FIELDS =
     [ascii ''name'', ascii ''brand'', ascii ''description'', ascii ''imageCaption'',
      ascii ''imageDescription'', ascii ''imageTags'']"

definition search_error_prefix :: ustr where
  \<comment> \<open>the notice of \<open>search_products\<close>: a cross mark and a Korean sentence ending in ": "\<close>
  "search_error_prefix =
     [10060, 32, 44160, 49353, 32, 51473, 32, 50724, 47448, 44032, 32, 48156, 49373, 54664,
      49845, 45768, 45796, 58, 32]"

definition load_error_prefix :: ustr where
  \<comment> \<open>the notice of \<open>load_all_products\<close>, of the same shape\<close>
  "load_error_prefix =
     [10060, 32, 49345, 54408, 51012, 32, 48520, 47084, 50724, 45716, 32, 51473, 32, 50724,
      47448, 44032, 32, 48156, 49373, 54664, 49845, 45768, 45796, 58, 32]"

definition search_body :: "services \<Rightarrow> ustr \<Rightarrow> ustr \<Rightarrow> ustr list \<Rightarrow> (product list) io" where
  \<comment> \<open>the statements under \<open>try\<close> in \<open>search_products\<close>\<close>
  "search_body search_service query strategy flds =
     (let fields_to_search = (if flds \<noteq> [] then Some flds else None)
      in if strategy = ascii ''keyword''
         then keyword_search search_service query fields_to_search None
         else if strategy = ascii ''vector''
         then vector_search search_service query fields_to_search None
         else hybrid_search search_service query fields_to_search None)"

definition search_products :: "services \<Rightarrow> ustr \<Rightarrow> ustr \<Rightarrow> ustr list \<Rightarrow> (product list) io" where
  "search_products search_service query strategy flds =
     try_except
       (search_body search_service query strategy flds)
       (\<lambda>e. bind_io (st_error (search_error_prefix @ str_exn e)) (\<lambda>_. (Inr [], [])))"

definition load_all_products :: "services \<Rightarrow> (product list) io" where
  "load_all_products search_service =
     try_except
       (get_all_products search_service 100)
       (\<lambda>e. bind_io (st_error (load_error_prefix @ str_exn e)) (\<lambda>_. (Inr [], [])))"

subsection \<open>The chatbot branch of \<open>main\<close>\<close>

definition won :: ustr where
  \<comment> \<open>the currency suffix of the price, one Korean syllable\<close>
  "won =
     [50896]"

definition no_price_info :: ustr where
  \<comment> \<open>the placeholder of an absent price\<close>
  "no_price_info =
     [44032, 44201, 32, 51221, 48372, 32, 50630, 51020]"

definition label_name :: ustr where
  \<comment> \<open>newline, the bracketed heading, newline, and the label of the name line\<close>
  "label_name =
     [10, 91, 52628, 52380, 32, 49345, 54408, 32, 51221, 48372, 93, 10, 45, 32, 49345,
      54408, 47749, 58, 32]"

definition label_brand :: ustr where
  \<comment> \<open>newline and the label of the brand line\<close>
  "label_brand =
     [10, 45, 32, 48652, 47004, 46300, 58, 32]"

definition label_price :: ustr where
  \<comment> \<open>newline and the label of the price line\<close>
  "label_price =
     [10, 45, 32, 44032, 44201, 58, 32]"

definition label_description :: ustr where
  \<comment> \<open>newline and the label of the description line\<close>
  "label_description =
     [10, 45, 32, 49444, 47749, 58, 32]"

definition label_imageCaption :: ustr where
  \<comment> \<open>newline and the label of the image caption line\<close>
  "label_imageCaption =
     [10, 45, 32, 51060, 48120, 51648, 32, 52897, 49496, 58, 32]"

definition label_imageDescription :: ustr where
  \<comment> \<open>newline and the label of the image description line\<close>
  "label_imageDescription =
     [10, 45, 32, 51060, 48120, 51648, 32, 49444, 47749, 58, 32]"

definition label_tags :: ustr where
  \<comment> \<open>newline and the label of the tags line\<close>
  "label_tags =
     [10, 45, 32, 53468, 44536, 58, 32]"

definition label_score :: ustr where
  \<comment> \<open>newline and the label of the relevance score line\<close>
  "label_score =
     [10, 45, 32, 44288, 47144, 46020, 32, 51216, 49688, 58, 32]"

definition system_prompt :: ustr where
  \<comment> \<open>the persona instruction, four Korean sentences\<close>
  "system_prompt =
     [45817, 49888, 51008, 32, 52828, 51208, 54620, 32, 51060, 52964, 47672, 49828, 32,
      49345, 54408, 32, 52628, 52380, 32, 52311, 48391, 51077, 45768, 45796, 46, 32, 10,
      49324, 50857, 51088, 51032, 32, 51656, 47928, 50640, 32, 46384, 46972, 32, 44160,
      49353, 46108, 32, 49345, 54408, 32, 51221, 48372, 47484, 32, 48148, 53461, 51004,
      47196, 32, 51088, 50672, 49828, 47101, 44256, 32, 52828, 51208, 54616, 44172, 32,
      49345, 54408, 51012, 32, 52628, 52380, 54616, 44256, 32, 49444, 47749, 54644, 51452,
      49464, 50836, 46, 10, 49345, 54408, 51032, 32, 53945, 51669, 44, 32, 51109, 51216, 44,
      32, 50612, 50872, 47532, 45716, 32, 49345, 54889, 32, 46321, 51012, 32, 54252, 54632,
      54616, 50668, 32, 44396, 52404, 51201, 51004, 47196, 32, 49444, 47749, 54616, 46104,
      44, 32, 51088, 50672, 49828, 47084, 50868, 32, 45824, 54868, 52404, 47484, 32, 50976,
      51648, 54616, 49464, 50836, 46, 10, 44032, 44201, 44284, 32, 48652, 47004, 46300, 32,
      51221, 48372, 46020, 32, 54632, 44760, 32, 50504, 45236, 54644, 51452, 49464, 50836,
      46]"

definition no_products_message :: ustr where
  \<comment> \<open>the fixed reply when nothing was found\<close>
  "no_products_message =
     [51396, 49569, 54633, 45768, 45796, 46, 32, 50836, 52397, 54616, 49888, 32, 45236,
      50857, 44284, 32, 44288, 47144, 46108, 32, 49345, 54408, 51012, 32, 52286, 51012, 32,
      49688, 32, 50630, 49845, 45768, 45796, 46, 32, 45796, 47480, 32, 53412, 50892, 46300,
      47196, 32, 45796, 49884, 32, 51656, 47928, 54644, 51452, 49884, 44192, 50612, 50836,
      63]"

definition error_message_prefix :: ustr where
  \<comment> \<open>the reply to an exception, ending in ": "\<close>
  "error_message_prefix =
     [51396, 49569, 54633, 45768, 45796, 46, 32, 50724, 47448, 44032, 32, 48156, 49373,
      54664, 49845, 45768, 45796, 58, 32]"

definition price_str :: "product \<Rightarrow> ustr" where
  "price_str top_product =
     (case price top_product of
        Some p \<Rightarrow> format_int_comma p @ won
      | None \<Rightarrow> no_price_info)"

definition tags_str :: "product \<Rightarrow> ustr" where
  "tags_str top_product =
     (case imageTags top_product of
        Some (t # ts) \<Rightarrow> join (ascii '', '') (t # ts)
      | _ \<Rightarrow> ascii ''N/A'')"

definition score_str :: "product \<Rightarrow> ustr" where
  "score_str top_product =
     (case score top_product of
        Some s \<Rightarrow> format_4f s
      | None \<Rightarrow> ascii ''N/A'')"

definition product_context :: "product \<Rightarrow> ustr" where
  "product_context top_product =
     label_name @ or_str (name top_product) (ascii ''N/A'')
     @ label_brand @ or_str (brand top_product) (ascii ''N/A'')
     @ label_price @ price_str top_product
     @ label_description @ or_str (description top_product) (ascii ''N/A'')
     @ label_imageCaption @ or_str (imageCaption top_product) (ascii ''N/A'')
     @ label_imageDescription @ or_str (imageDescription top_product) (ascii ''N/A'')
     @ label_tags @ tags_str top_product
     @ label_score @ score_str top_product
     @ [10]"

definition recent_messages :: "chat_message list \<Rightarrow> chat_message list" where
  \<comment> \<open>\<open>chat_messages[-7:] if len(chat_messages) > 7 else chat_messages\<close>\<close>
  "recent_messages chat_messages =
     (if length chat_messages > 7
      then drop (length chat_messages - 7) chat_messages
      else chat_messages)"

definition user_message :: "ustr \<Rightarrow> chat_message" where
  "user_message prompt = \<lparr>role = ascii ''user'', content = prompt, product_key = None\<rparr>"

definition system_message :: "ustr \<Rightarrow> chat_message" where
  "system_message text = \<lparr>role = ascii ''system'', content = text, product_key = None\<rparr>"

definition assistant_message :: "ustr \<Rightarrow> product option \<Rightarrow> chat_message" where
  "assistant_message text p = \<lparr>role = ascii ''assistant'', content = text, product_key = p\<rparr>"

text \<open>
  What \<open>main\<close> does with the text of the chat input, on the session's \<open>chat_messages\<close>:
  the new transcript and the trace. An empty input does nothing. The user's turn is
  appended before the \<open>try\<close>, so it is part of the transcript the window is cut from,
  and every path appends one assistant turn.
\<close>

definition chat :: "services \<Rightarrow> chat_message list \<Rightarrow> ustr \<Rightarrow> (chat_message list) io" where
  "chat svc chat_messages prompt =
     (if prompt = [] then (Inr chat_messages, [])
      else
        let chat_messages1 = chat_messages @ [user_message prompt]
        in try_except
             (bind_io (search_products svc prompt (ascii ''hybrid'') ALL_SEARCH_FIELDS)
                (\<lambda>search_results.
                   case search_results of
                     top_product # _ \<Rightarrow>
                       let msgs = [system_message system_prompt,
                                   system_message (product_context top_product)]
                                  @ recent_messages chat_messages1
                       in bind_io (chat_completion svc msgs None None)
                            (\<lambda>reply. (Inr (chat_messages1
                                        @ [assistant_message reply (Some top_product)]), []))
                   | [] \<Rightarrow>
                       (Inr (chat_messages1 @ [assistant_message no_products_message None]),
                        [])))
             (\<lambda>e. (Inr (chat_messages1
                          @ [assistant_message (error_message_prefix @ str_exn e) None]), [])))"

section \<open>Example inputs\<close>

text \<open>
  Concrete catalogs, backends, transcripts and settings on which the properties below
  are evaluated. \<open>float_0_87\<close> is the double that the literal \<open>0.87\<close> denotes.
\<close>

definition float_0_87 :: pyfloat where
  "float_0_87 = 7836263351624663 / 9007199254740992"

definition coat_document :: search_document where
  \<comment> \<open>a result with price 25000, two tags and a relevance score of 0.87\<close>
  "coat_document =
     \<lparr>doc_id = Val (ascii ''p-001''), doc_name = Val (ascii ''Wool coat''),
      doc_brand = Val (ascii ''Acme''), doc_description = Val (ascii ''A warm coat''),
      doc_price = Val 25000, doc_imageUrl = Missing, doc_imageCaption = Null,
      doc_imageDescription = Missing,
      doc_imageTags = Val [ascii ''winter'', ascii ''coat''],
      doc_search_score = Val float_0_87, doc_search_reranker_score = Missing\<rparr>"

definition coat_product :: product where
  \<comment> \<open>the record that \<open>coat_document\<close> is normalised to\<close>
  "coat_product =
     \<lparr>id_key = Some (ascii ''p-001''), name = Some (ascii ''Wool coat''),
      brand = Some (ascii ''Acme''), description = Some (ascii ''A warm coat''),
      price = Some 25000, imageUrl = None, imageCaption = None, imageDescription = None,
      imageTags = Some [ascii ''winter'', ascii ''coat''],
      score = None, reranker_score = None\<rparr>"

definition null_tags_document :: search_document where
  "null_tags_document =
     \<lparr>doc_id = Val (ascii ''p-002''), doc_name = Missing, doc_brand = Missing,
      doc_description = Missing, doc_price = Missing, doc_imageUrl = Missing,
      doc_imageCaption = Missing, doc_imageDescription = Missing, doc_imageTags = Null,
      doc_search_score = Missing, doc_search_reranker_score = Missing\<rparr>"

definition coat_services :: services where
  \<comment> \<open>a catalog of one document; the backend returns at most \<open>top\<close> documents\<close>
  "coat_services =
     \<lparr>embeddings_create = (\<lambda>request. Inr [[0, 1]]),
      chat_completions_create = (\<lambda>request. Inr [ascii ''Try the wool coat.'']),
      search_client_search = (\<lambda>params. Inr (take (nat (top_param params)) [coat_document])),
      gpt_deployment = ascii ''gpt-4'',
      embedding_deployment = ascii ''text-embedding-ada-002''\<rparr>"

definition empty_services :: services where
  \<comment> \<open>a search backend that finds nothing\<close>
  "empty_services =
     \<lparr>embeddings_create = (\<lambda>request. Inr [[0, 1]]),
      chat_completions_create = (\<lambda>request. Inr [ascii ''Try the wool coat.'']),
      search_client_search = (\<lambda>params. Inr []),
      gpt_deployment = ascii ''gpt-4'',
      embedding_deployment = ascii ''text-embedding-ada-002''\<rparr>"

definition failing_services :: services where
  \<comment> \<open>a search backend that is down\<close>
  "failing_services =
     \<lparr>embeddings_create = (\<lambda>request. Inr [[0, 1]]),
      chat_completions_create = (\<lambda>request. Inr [ascii ''Try the wool coat.'']),
      search_client_search = (\<lambda>params. Inl (RemoteError (ascii ''connection refused''))),
      gpt_deployment = ascii ''gpt-4'',
      embedding_deployment = ascii ''text-embedding-ada-002''\<rparr>"

definition ten_turns :: "chat_message list" where
  "ten_turns =
     [user_message (ascii ''q1''), assistant_message (ascii ''a1'') None,
      user_message (ascii ''q2''), assistant_message (ascii ''a2'') None,
      user_message (ascii ''q3''), assistant_message (ascii ''a3'') None,
      user_message (ascii ''q4''), assistant_message (ascii ''a4'') None,
      user_message (ascii ''q5''), assistant_message (ascii ''a5'') None]"

definition int_digits :: "ustr \<Rightarrow> exn + int" where
  \<comment> \<open>what the built-in \<open>int\<close> gives for a string of ASCII digits, such as the default
      \<open>"1536"\<close>; a stand-in that raises on every other string\<close>
  "int_digits s =
     (if s \<noteq> [] \<and> list_all (\<lambda>c. 48 \<le> c \<and> c \<le> 57) s
      then Inr (foldl (\<lambda>a c. 10 * a + int (c - 48)) 0 s)
      else Inl (ValueError (ascii ''invalid literal for int() with base 10'')))"

definition unset_environ :: environ where
  \<comment> \<open>an environment in which none of the variables is set\<close>
  "unset_environ = Map.empty"

definition unset_config :: config where
  \<comment> \<open>the class in that environment: the three settings without a default are \<open>None\<close>\<close>
  "unset_config =
     \<lparr>AZURE_OPENAI_ENDPOINT = None, AZURE_OPENAI_API_KEY = None,
      AZURE_OPENAI_API_VERSION = ascii ''2024-10-21'',
      AZURE_OPENAI_DEPLOYMENT_NAME = ascii ''gpt-4'',
      AZURE_OPENAI_VISION_DEPLOYMENT_NAME = ascii ''gpt-4o'',
      AZURE_OPENAI_EMBEDDING_DEPLOYMENT_NAME = ascii ''text-embedding-ada-002'',
      AZURE_SEARCH_SERVICE_ENDPOINT = None,
      AZURE_SEARCH_INDEX_NAME = ascii ''products-index'',
      EMBEDDING_DIMENSION = 1536\<rparr>"

section \<open>Properties\<close>

subsection \<open>Strings\<close>

lemma replace_single: "replace old [new] s = map (\<lambda>c. if c = old then new else c) s"
  by (induction s) (simp_all add: replace_def)

lemma dropWhile_head: "(case dropWhile P xs of [] \<Rightarrow> True | c # _ \<Rightarrow> \<not> P c)"
  by (induction xs) simp_all

lemma rev_dropWhile_takeWhile:
  "rev (dropWhile P (rev d)) @ rev (takeWhile P (rev d)) = d"
proof -
  have "rev (dropWhile P (rev d)) @ rev (takeWhile P (rev d))
          = rev (takeWhile P (rev d) @ dropWhile P (rev d))"
    by (simp only: rev_append)
  also have "\<dots> = rev (rev d)"
    by (simp only: takeWhile_dropWhile_id)
  also have "\<dots> = d"
    by simp
  finally show ?thesis .
qed

lemma strip_suffix:
  "dropWhile isspace s = strip s @ rev (takeWhile isspace (rev (dropWhile isspace s)))"
  unfolding strip_def by (rule rev_dropWhile_takeWhile [symmetric])

lemma strip_decomp:
  "\<exists>pre suf. s = pre @ strip s @ suf \<and> list_all isspace pre \<and> list_all isspace suf"
proof -
  define pre where "pre = takeWhile isspace s"
  define suf where "suf = rev (takeWhile isspace (rev (dropWhile isspace s)))"
  have "s = pre @ dropWhile isspace s"
    by (simp add: pre_def)
  also have "dropWhile isspace s = strip s @ suf"
    unfolding suf_def by (rule strip_suffix)
  finally have "s = pre @ strip s @ suf" .
  moreover have "list_all isspace pre"
    unfolding pre_def list_all_iff by (auto dest: set_takeWhileD)
  moreover have "list_all isspace suf"
    unfolding suf_def list_all_iff by (auto dest: set_takeWhileD)
  ultimately show ?thesis
    by blast
qed

lemma strip_last: "(case rev (strip s) of [] \<Rightarrow> True | c # _ \<Rightarrow> \<not> isspace c)"
proof -
  have "rev (strip s) = dropWhile isspace (rev (dropWhile isspace s))"
    by (simp add: strip_def)
  then show ?thesis
    by (simp only: dropWhile_head)
qed

lemma strip_first: "(case strip s of [] \<Rightarrow> True | c # _ \<Rightarrow> \<not> isspace c)"
proof (cases "strip s")
  case Nil
  then show ?thesis by simp
next
  case (Cons c cs)
  with strip_suffix [of s]
  have "dropWhile isspace s = c # cs @ rev (takeWhile isspace (rev (dropWhile isspace s)))"
    by simp
  with dropWhile_head [of isspace s] have "\<not> isspace c"
    by (metis list.simps(5))
  with Cons show ?thesis by simp
qed

lemma strip_no_newline: "10 \<notin> set s \<Longrightarrow> 10 \<notin> set (strip s)"
  by (auto simp: strip_def dest!: set_dropWhileD)

subsection \<open>Traces\<close>

lemma snd_run_search: "snd (run_search self params) = [Search params]"
  by (simp add: run_search_def split: sum.splits)

lemma snd_get_embedding:
  "snd (get_embedding self text) =
     [EmbeddingsCreate \<lparr>emb_input = [strip (replace 10 [32] text)],
                        emb_model = embedding_deployment self\<rparr>]"
  by (simp add: get_embedding_def Let_def)

lemma embedding_requests_simps:
  "embedding_requests [] = []"
  "embedding_requests (EmbeddingsCreate r # ev) = r # embedding_requests ev"
  "embedding_requests (ChatCompletionsCreate c # ev) = embedding_requests ev"
  "embedding_requests (Search p # ev) = embedding_requests ev"
  "embedding_requests (StError m # ev) = embedding_requests ev"
  "embedding_requests (ev @ ev') = embedding_requests ev @ embedding_requests ev'"
  by (simp_all add: embedding_requests_def)

lemma chat_requests_simps:
  "chat_requests [] = []"
  "chat_requests (EmbeddingsCreate r # ev) = chat_requests ev"
  "chat_requests (ChatCompletionsCreate c # ev) = c # chat_requests ev"
  "chat_requests (Search p # ev) = chat_requests ev"
  "chat_requests (StError m # ev) = chat_requests ev"
  "chat_requests (ev @ ev') = chat_requests ev @ chat_requests ev'"
  by (simp_all add: chat_requests_def)

lemma search_requests_simps:
  "search_requests [] = []"
  "search_requests (EmbeddingsCreate r # ev) = search_requests ev"
  "search_requests (ChatCompletionsCreate c # ev) = search_requests ev"
  "search_requests (Search p # ev) = p # search_requests ev"
  "search_requests (StError m # ev) = search_requests ev"
  "search_requests (ev @ ev') = search_requests ev @ search_requests ev'"
  by (simp_all add: search_requests_def)

lemma st_errors_simps:
  "st_errors [] = []"
  "st_errors (EmbeddingsCreate r # ev) = st_errors ev"
  "st_errors (ChatCompletionsCreate c # ev) = st_errors ev"
  "st_errors (Search p # ev) = st_errors ev"
  "st_errors (StError m # ev) = m # st_errors ev"
  "st_errors (ev @ ev') = st_errors ev @ st_errors ev'"
  by (simp_all add: st_errors_def)

lemma snd_bind_io:
  "snd (bind_io m f) =
     (case fst m of Inl e \<Rightarrow> snd m | Inr v \<Rightarrow> snd m @ snd (f v))"
  by (cases m) (auto simp: bind_io_def split: sum.splits prod.splits)

lemma fst_bind_io:
  "fst (bind_io m f) = (case fst m of Inl e \<Rightarrow> Inl e | Inr v \<Rightarrow> fst (f v))"
  by (cases m) (auto simp: bind_io_def split: sum.splits prod.splits)

lemma snd_try_except:
  "snd (try_except body handler) =
     (case fst body of Inr v \<Rightarrow> snd body | Inl e \<Rightarrow> snd body @ snd (handler e))"
  by (cases body) (auto simp: try_except_def split: sum.splits prod.splits)

lemma fst_try_except:
  "fst (try_except body handler) =
     (case fst body of Inr v \<Rightarrow> Inr v | Inl e \<Rightarrow> fst (handler e))"
  by (cases body) (auto simp: try_except_def split: sum.splits prod.splits)

lemma embedding_requests_keyword:
  "embedding_requests (snd (keyword_search self query flds top_k)) = []"
  by (simp add: keyword_search_def Let_def snd_run_search embedding_requests_simps)

lemma embedding_requests_vector:
  "embedding_requests (snd (vector_search self query flds top_k)) =
     [\<lparr>emb_input = [strip (replace 10 [32] query)], emb_model = embedding_deployment self\<rparr>]"
  by (simp add: vector_search_def Let_def snd_bind_io snd_run_search snd_get_embedding
      embedding_requests_simps split: sum.splits)

lemma embedding_requests_hybrid:
  "embedding_requests (snd (hybrid_search self query flds top_k)) =
     [\<lparr>emb_input = [strip (replace 10 [32] query)], emb_model = embedding_deployment self\<rparr>]"
  by (simp add: hybrid_search_def Let_def snd_bind_io snd_run_search snd_get_embedding
      embedding_requests_simps split: sum.splits)

text \<open>
  C9. Whatever the input text, the one request \<open>get_embedding\<close> submits to the
  embedding backend carries the text with every newline turned into a space and the
  whitespace at both ends removed: the submitted text has no newline, neither starts nor
  ends with whitespace, and the text with its newlines replaced is the submitted text
  between two runs of whitespace.
\<close>

theorem get_embedding_normalizes_text:
  "\<exists>t pre suf.
     snd (get_embedding self text) =
       [EmbeddingsCreate \<lparr>emb_input = [t], emb_model = embedding_deployment self\<rparr>]
     \<and> map (\<lambda>c. if c = 10 then 32 else c) text = pre @ t @ suf
     \<and> list_all isspace pre \<and> list_all isspace suf
     \<and> (case t of [] \<Rightarrow> True | c # _ \<Rightarrow> \<not> isspace c)
     \<and> (case rev t of [] \<Rightarrow> True | c # _ \<Rightarrow> \<not> isspace c)
     \<and> 10 \<notin> set t"
proof -
  define r where "r = replace 10 [32] text"
  have r: "r = map (\<lambda>c. if c = 10 then 32 else c) text"
    by (simp add: r_def replace_single)
  then have "10 \<notin> set r"
    by auto
  then have nl: "10 \<notin> set (strip r)"
    by (rule strip_no_newline)
  obtain pre suf where dec: "r = pre @ strip r @ suf"
    and pre: "list_all isspace pre" and suf: "list_all isspace suf"
    using strip_decomp [of r] by blast
  have ev: "snd (get_embedding self text) =
      [EmbeddingsCreate \<lparr>emb_input = [strip r], emb_model = embedding_deployment self\<rparr>]"
    unfolding r_def by (rule snd_get_embedding)
  from dec have "map (\<lambda>c. if c = 10 then 32 else c) text = pre @ strip r @ suf"
    by (simp only: r [symmetric])
  with ev pre suf nl strip_first [of r] strip_last [of r] show ?thesis
    by blast
qed

text \<open>
  C10. \<open>chat_completion\<close> called with a temperature of \<open>0.0\<close> submits the configured
  default temperature (the double written \<open>0.7\<close>), and called with \<open>max_tokens\<close> of
  \<open>0\<close> submits the configured default of 1000 tokens, whatever the other argument is.
\<close>

theorem chat_completion_zero_replaced_by_default:
  "map temperature (chat_requests (snd (chat_completion self msgs (Some 0) max_toks)))
     = [DEFAULT_TEMPERATURE]
   \<and> map max_tokens (chat_requests (snd (chat_completion self msgs temp (Some 0))))
     = [MAX_TOKENS]
   \<and> MAX_TOKENS = 1000
   \<and> \<bar>DEFAULT_TEMPERATURE - 7 / 10\<bar> < 1 / 10 ^ 16
   \<and> DEFAULT_TEMPERATURE \<noteq> 0"
  by (simp add: chat_completion_def Let_def or_float_def or_int_def chat_requests_simps
      MAX_TOKENS_def DEFAULT_TEMPERATURE_def)

text \<open>
  C7. A keyword search makes no call to the embedding client; a vector search and a
  hybrid search each make exactly one, whatever \<open>top_k\<close> is and whether or not the
  calls succeed. The same holds through \<open>search_products\<close>.
\<close>

theorem embedding_calls_per_strategy:
  "length (embedding_requests (snd (keyword_search self query flds top_k))) = 0
   \<and> length (embedding_requests (snd (vector_search self query flds top_k))) = 1
   \<and> length (embedding_requests (snd (hybrid_search self query flds top_k))) = 1
   \<and> length (embedding_requests
        (snd (search_products self query strategy chosen)))
       = (if strategy = ascii ''keyword'' then 0 else 1)"
  by (simp add: embedding_requests_keyword embedding_requests_vector
      embedding_requests_hybrid search_products_def search_body_def snd_try_except
      snd_bind_io st_error_def embedding_requests_simps Let_def split: sum.splits)

subsection \<open>Normalisation and the result count\<close>

text \<open>
  C8 fails on the code. A payload that holds \<open>null\<close> under \<open>imageTags\<close> is normalised
  to a record whose \<open>imageTags\<close> is \<open>None\<close>, not a sequence: the default \<open>[]\<close> of
  \<open>result.get("imageTags", [])\<close> stands in only when the key is missing, as it does
  for the same payload without the key.
\<close>

theorem process_results_null_tags:
  "doc_imageTags null_tags_document = Null
   \<and> map imageTags (process_results [null_tags_document]) = [None]
   \<and> map imageTags (process_results [null_tags_document\<lparr>doc_imageTags := Missing\<rparr>])
       = [Some []]"
  by (simp add: process_results_def null_tags_document_def)

text \<open>
  C2 fails on the code. On a catalog of one document, with a backend that honours
  \<open>top\<close>, each of the three searches called with \<open>top_k = 0\<close> returns that document:
  the zero is replaced by the default and the backend is asked for 5 results. The
  sibling \<open>get_all_products\<close> passes its \<open>top_k\<close> on as it is, and returns nothing
  for 0 on the same backend.
\<close>

theorem top_k_zero_not_empty:
  "fst (keyword_search coat_services (ascii ''coat'') None (Some 0)) = Inr [coat_product]
   \<and> fst (vector_search coat_services (ascii ''coat'') None (Some 0)) = Inr [coat_product]
   \<and> fst (hybrid_search coat_services (ascii ''coat'') None (Some 0)) = Inr [coat_product]
   \<and> map top_param (search_requests (snd (keyword_search coat_services (ascii ''coat'') None
         (Some 0)))) = [5]
   \<and> map top_param (search_requests (snd (vector_search coat_services (ascii ''coat'') None
         (Some 0)))) = [5]
   \<and> map top_param (search_requests (snd (hybrid_search coat_services (ascii ''coat'') None
         (Some 0)))) = [5]
   \<and> fst (get_all_products coat_services 0) = Inr []
   \<and> map top_param (search_requests (snd (get_all_products coat_services 0))) = [0]"
  by (simp add: keyword_search_def vector_search_def hybrid_search_def get_all_products_def
      run_search_def get_embedding_def bind_io_def or_int_def MAX_SEARCH_RESULTS_def
      coat_services_def process_results_def coat_document_def coat_product_def
      getattr_none_def search_requests_simps Let_def)

subsection \<open>Configuration\<close>

lemma missing_fields_explicit:
  "missing_fields cls =
     (if truthy_str (AZURE_OPENAI_ENDPOINT cls) then [] else [ascii ''AZURE_OPENAI_ENDPOINT''])
     @ (if truthy_str (AZURE_OPENAI_API_KEY cls) then [] else [ascii ''AZURE_OPENAI_API_KEY''])
     @ (if truthy_str (AZURE_SEARCH_SERVICE_ENDPOINT cls) then []
        else [ascii ''AZURE_SEARCH_SERVICE_ENDPOINT''])"
  by (simp add: missing_fields_def required_fields_def)

lemma config_module_bad_dimension:
  "int_builtin (getenv_default env (ascii ''EMBEDDING_DIMENSION'') (ascii ''1536'')) = Inl e
   \<Longrightarrow> config_module int_builtin env = (Inl e, [])"
  by (simp add: config_module_def Config_class_def)

lemma int_digits_1536: "int_digits (ascii ''1536'') = Inr 1536"
  by (simp add: int_digits_def ascii_def)

lemma unset_Config_class: "Config_class int_digits unset_environ = Inr unset_config"
  by (simp add: Config_class_def getenv_default_def getenv_def unset_environ_def
      unset_config_def int_digits_1536)

text \<open>
  C3, as stated, fails: in an environment with none of the variables set, \<open>validate\<close>
  raises, but the module catches the error and prints a warning naming the three
  settings; no exception leaves the module, which defines the class with the three
  settings \<open>None\<close>.
\<close>

theorem unset_environ_only_warns:
  "validate unset_config =
     Inl (ValueError (ascii ''Missing required configuration: ''
       @ ascii ''AZURE_OPENAI_ENDPOINT, AZURE_OPENAI_API_KEY, AZURE_SEARCH_SERVICE_ENDPOINT''))
   \<and> config_module int_digits unset_environ =
       (Inr unset_config,
        [config_warning_prefix @ ascii ''Missing required configuration: ''
         @ ascii ''AZURE_OPENAI_ENDPOINT, AZURE_OPENAI_API_KEY, AZURE_SEARCH_SERVICE_ENDPOINT''])"
proof -
  have m: "missing_fields unset_config =
      [ascii ''AZURE_OPENAI_ENDPOINT'', ascii ''AZURE_OPENAI_API_KEY'',
       ascii ''AZURE_SEARCH_SERVICE_ENDPOINT'']"
    by (simp add: missing_fields_explicit unset_config_def truthy_str_def)
  have v: "validate unset_config =
     Inl (ValueError (ascii ''Missing required configuration: ''
       @ ascii ''AZURE_OPENAI_ENDPOINT, AZURE_OPENAI_API_KEY, AZURE_SEARCH_SERVICE_ENDPOINT''))"
    by (simp add: validate_def m ascii_def)
  then show ?thesis
    by (simp add: config_module_def unset_Config_class)
qed

text \<open>
  C3, amended. Suppose the class body of \<open>Config\<close> was evaluated, that is, the
  conversion of \<open>EMBEDDING_DIMENSION\<close> to an integer did not raise. If any of the three
  required settings is missing (unset or empty), then \<open>validate\<close> raises a
  \<open>ValueError\<close> whose message is "Missing required configuration: " followed by the
  names of exactly the missing settings, separated by ", ", in the order OpenAI
  endpoint, OpenAI key, Search endpoint. Where the module calls \<open>validate\<close> this
  error is caught: one line, the configuration warning with that message, is printed,
  and no exception leaves the module, which defines the class with the three settings
  as the environment has them.
\<close>

theorem missing_setting_warns:
  assumes "int_builtin (getenv_default env (ascii ''EMBEDDING_DIMENSION'') (ascii ''1536''))
             = Inr dimension"
    and "\<not> truthy_str (getenv env (ascii ''AZURE_OPENAI_ENDPOINT''))
         \<or> \<not> truthy_str (getenv env (ascii ''AZURE_OPENAI_API_KEY''))
         \<or> \<not> truthy_str (getenv env (ascii ''AZURE_SEARCH_SERVICE_ENDPOINT''))"
  shows "\<exists>cls m.
           Config_class int_builtin env = Inr cls
           \<and> AZURE_OPENAI_ENDPOINT cls = getenv env (ascii ''AZURE_OPENAI_ENDPOINT'')
           \<and> AZURE_OPENAI_API_KEY cls = getenv env (ascii ''AZURE_OPENAI_API_KEY'')
           \<and> AZURE_SEARCH_SERVICE_ENDPOINT cls
               = getenv env (ascii ''AZURE_SEARCH_SERVICE_ENDPOINT'')
           \<and> m = ascii ''Missing required configuration: ''
                 @ join (ascii '', '')
                     ((if truthy_str (getenv env (ascii ''AZURE_OPENAI_ENDPOINT'')) then []
                       else [ascii ''AZURE_OPENAI_ENDPOINT''])
                      @ (if truthy_str (getenv env (ascii ''AZURE_OPENAI_API_KEY'')) then []
                         else [ascii ''AZURE_OPENAI_API_KEY''])
                      @ (if truthy_str (getenv env (ascii ''AZURE_SEARCH_SERVICE_ENDPOINT''))
                         then [] else [ascii ''AZURE_SEARCH_SERVICE_ENDPOINT'']))
           \<and> validate cls = Inl (ValueError m)
           \<and> config_module int_builtin env = (Inr cls, [config_warning_prefix @ m])"
proof -
  obtain cls where cls: "Config_class int_builtin env = Inr cls"
    and a: "AZURE_OPENAI_ENDPOINT cls = getenv env (ascii ''AZURE_OPENAI_ENDPOINT'')"
    and b: "AZURE_OPENAI_API_KEY cls = getenv env (ascii ''AZURE_OPENAI_API_KEY'')"
    and c: "AZURE_SEARCH_SERVICE_ENDPOINT cls
              = getenv env (ascii ''AZURE_SEARCH_SERVICE_ENDPOINT'')"
    using assms(1) by (simp add: Config_class_def)
  define names where "names =
    (if truthy_str (getenv env (ascii ''AZURE_OPENAI_ENDPOINT'')) then []
     else [ascii ''AZURE_OPENAI_ENDPOINT''])
    @ (if truthy_str (getenv env (ascii ''AZURE_OPENAI_API_KEY'')) then []
       else [ascii ''AZURE_OPENAI_API_KEY''])
    @ (if truthy_str (getenv env (ascii ''AZURE_SEARCH_SERVICE_ENDPOINT'')) then []
       else [ascii ''AZURE_SEARCH_SERVICE_ENDPOINT''])"
  have names: "missing_fields cls = names"
    by (simp only: missing_fields_explicit a b c names_def)
  have "names \<noteq> []"
    using assms(2) by (auto simp: names_def)
  then have v: "validate cls =
      Inl (ValueError (ascii ''Missing required configuration: '' @ join (ascii '', '') names))"
    by (simp add: validate_def names)
  then have "config_module int_builtin env =
      (Inr cls, [config_warning_prefix @ ascii ''Missing required configuration: ''
                 @ join (ascii '', '') names])"
    by (simp add: config_module_def cls)
  with cls a b c v show ?thesis
    unfolding names_def by blast
qed

theorem missing_setting_warns_witness:
  "int_digits (getenv_default unset_environ (ascii ''EMBEDDING_DIMENSION'') (ascii ''1536''))
     = Inr 1536
   \<and> \<not> truthy_str (getenv unset_environ (ascii ''AZURE_OPENAI_ENDPOINT''))
   \<and> (\<exists>cls m. validate cls = Inl (ValueError m)
          \<and> config_module int_digits unset_environ = (Inr cls, [config_warning_prefix @ m]))"
proof -
  have h1: "int_digits (getenv_default unset_environ (ascii ''EMBEDDING_DIMENSION'')
      (ascii ''1536'')) = Inr 1536"
    by (simp add: getenv_default_def unset_environ_def int_digits_1536)
  have h: "\<not> truthy_str (getenv unset_environ (ascii ''AZURE_OPENAI_ENDPOINT''))"
    by (simp add: getenv_def unset_environ_def truthy_str_def)
  then have h2: "\<not> truthy_str (getenv unset_environ (ascii ''AZURE_OPENAI_ENDPOINT''))
      \<or> \<not> truthy_str (getenv unset_environ (ascii ''AZURE_OPENAI_API_KEY''))
      \<or> \<not> truthy_str (getenv unset_environ (ascii ''AZURE_SEARCH_SERVICE_ENDPOINT''))"
    by simp
  from missing_setting_warns [where int_builtin = int_digits and env = unset_environ, OF h1 h2]
  obtain cls m where "validate cls = Inl (ValueError m)"
    and "config_module int_digits unset_environ = (Inr cls, [config_warning_prefix @ m])"
    by (elim exE conjE) (rule that)
  then have "\<exists>cls m. validate cls = Inl (ValueError m)
      \<and> config_module int_digits unset_environ = (Inr cls, [config_warning_prefix @ m])"
    by (intro exI conjI)
  with h1 h show ?thesis
    by (intro conjI)
qed

subsection \<open>The search boundary\<close>

lemma search_products_returns: "\<exists>ps. fst (search_products self query strategy chosen) = Inr ps"
  by (simp add: search_products_def fst_try_except fst_bind_io st_error_def
      split: sum.splits)

lemma load_all_products_returns: "\<exists>ps. fst (load_all_products self) = Inr ps"
  by (simp add: load_all_products_def fst_try_except fst_bind_io st_error_def
      split: sum.splits)

lemma search_products_caught:
  "fst (search_body self query strategy chosen) = Inl e \<Longrightarrow>
     search_products self query strategy chosen =
       (Inr [], snd (search_body self query strategy chosen)
                @ [StError (search_error_prefix @ str_exn e)])"
  by (cases "search_body self query strategy chosen")
    (simp add: search_products_def try_except_def bind_io_def st_error_def)

lemma load_all_products_caught:
  "fst (get_all_products self 100) = Inl e \<Longrightarrow>
     load_all_products self =
       (Inr [], snd (get_all_products self 100)
                @ [StError (load_error_prefix @ str_exn e)])"
  by (cases "get_all_products self 100")
    (simp add: load_all_products_def try_except_def bind_io_def st_error_def)

lemma search_products_passes:
  "fst (search_body self query strategy chosen) = Inr ps \<Longrightarrow>
     search_products self query strategy chosen =
       (Inr ps, snd (search_body self query strategy chosen))"
  by (cases "search_body self query strategy chosen")
    (simp add: search_products_def try_except_def)

text \<open>
  C5. \<open>search_products\<close> and \<open>load_all_products\<close> never raise: whatever the query,
  the strategy and the backends, each returns a list. If the search it runs raises an
  exception \<open>e\<close> (from the embedding call, the search call or reading the results),
  the list returned is empty and one error notice carrying \<open>str(e)\<close> is shown after
  the calls made so far.
\<close>

theorem retrieval_errors_caught:
  "(\<exists>ps. fst (search_products self query strategy chosen) = Inr ps)
   \<and> (\<exists>ps. fst (load_all_products self) = Inr ps)
   \<and> (\<forall>e. fst (search_body self query strategy chosen) = Inl e \<longrightarrow>
          search_products self query strategy chosen =
            (Inr [], snd (search_body self query strategy chosen)
                     @ [StError (search_error_prefix @ str_exn e)]))
   \<and> (\<forall>e. fst (get_all_products self 100) = Inl e \<longrightarrow>
          load_all_products self =
            (Inr [], snd (get_all_products self 100)
                     @ [StError (load_error_prefix @ str_exn e)]))"
  using search_products_returns load_all_products_returns search_products_caught
    load_all_products_caught by blast

lemma failing_search_body:
  "fst (search_body failing_services (ascii ''coat'') (ascii ''keyword'') ALL_SEARCH_FIELDS)
     = Inl (RemoteError (ascii ''connection refused''))"
  by (simp add: search_body_def keyword_search_def run_search_def failing_services_def
      ALL_SEARCH_FIELDS_def Let_def)

lemma failing_get_all:
  "fst (get_all_products failing_services 100) = Inl (RemoteError (ascii ''connection refused''))"
  by (simp add: get_all_products_def run_search_def failing_services_def)

theorem retrieval_errors_caught_witness:
  "fst (search_body failing_services (ascii ''coat'') (ascii ''keyword'') ALL_SEARCH_FIELDS)
     = Inl (RemoteError (ascii ''connection refused''))
   \<and> fst (search_products failing_services (ascii ''coat'') (ascii ''keyword'')
            ALL_SEARCH_FIELDS) = Inr []
   \<and> st_errors (snd (search_products failing_services (ascii ''coat'') (ascii ''keyword'')
                       ALL_SEARCH_FIELDS))
       = [search_error_prefix @ ascii ''connection refused'']
   \<and> fst (get_all_products failing_services 100)
       = Inl (RemoteError (ascii ''connection refused''))
   \<and> fst (load_all_products failing_services) = Inr []
   \<and> st_errors (snd (load_all_products failing_services))
       = [load_error_prefix @ ascii ''connection refused'']"
  using retrieval_errors_caught [of failing_services "ascii ''coat''" "ascii ''keyword''"
      ALL_SEARCH_FIELDS]
    failing_search_body failing_get_all
  by (simp add: st_errors_simps search_body_def keyword_search_def get_all_products_def
      snd_run_search Let_def)

subsection \<open>The chatbot\<close>

lemma chat_requests_search_products:
  "chat_requests (snd (search_products self query strategy chosen)) = []"
  by (simp add: search_products_def search_body_def snd_try_except snd_bind_io st_error_def
      keyword_search_def vector_search_def hybrid_search_def snd_run_search
      snd_get_embedding chat_requests_simps Let_def split: sum.splits)

text \<open>
  C6. If the hybrid search for a (non-empty) utterance yields no product, the chatbot
  appends the user's turn and one assistant turn whose content is the fixed message
  \<open>no_products_message\<close> and which carries no product, and the completion client is
  not called.
\<close>

theorem no_match_fixed_reply:
  assumes "prompt \<noteq> []"
    and "fst (search_products self prompt (ascii ''hybrid'') ALL_SEARCH_FIELDS) = Inr []"
  shows "fst (chat self chat_messages prompt) =
           Inr (chat_messages
                @ [user_message prompt,
                   \<lparr>role = ascii ''assistant'', content = no_products_message,
                    product_key = None\<rparr>])
         \<and> chat_requests (snd (chat self chat_messages prompt)) = []"
proof -
  obtain ev where sp:
    "search_products self prompt (ascii ''hybrid'') ALL_SEARCH_FIELDS = (Inr [], ev)"
    using assms(2) by (cases "search_products self prompt (ascii ''hybrid'') ALL_SEARCH_FIELDS") simp
  have "chat_requests ev = []"
    using chat_requests_search_products [of self prompt "ascii ''hybrid''" ALL_SEARCH_FIELDS]
    by (simp add: sp)
  with assms(1) show ?thesis
    by (simp add: chat_def Let_def bind_io_def try_except_def sp assistant_message_def)
qed

lemma empty_search_products:
  "fst (search_products empty_services (ascii ''umbrella'') (ascii ''hybrid'') ALL_SEARCH_FIELDS)
     = Inr []"
  by (simp add: search_products_def search_body_def hybrid_search_def get_embedding_def
      run_search_def try_except_def bind_io_def empty_services_def process_results_def
      ascii_def Let_def)

theorem no_match_fixed_reply_witness:
  "ascii ''umbrella'' \<noteq> []
   \<and> fst (search_products empty_services (ascii ''umbrella'') (ascii ''hybrid'')
            ALL_SEARCH_FIELDS) = Inr []
   \<and> fst (chat empty_services ten_turns (ascii ''umbrella'')) =
         Inr (ten_turns
              @ [user_message (ascii ''umbrella''),
                 \<lparr>role = ascii ''assistant'', content = no_products_message,
                  product_key = None\<rparr>])
   \<and> chat_requests (snd (chat empty_services ten_turns (ascii ''umbrella''))) = []"
proof -
  have h: "ascii ''umbrella'' \<noteq> []"
    by (simp add: ascii_def)
  from no_match_fixed_reply [OF h empty_search_products, of ten_turns] h empty_search_products
  show ?thesis
    by simp
qed

lemma chat_completion_messages:
  assumes "prompt \<noteq> []"
    and "fst (search_products self prompt (ascii ''hybrid'') ALL_SEARCH_FIELDS)
           = Inr (top_product # others)"
  shows "map messages (chat_requests (snd (chat self chat_messages prompt))) =
           [[system_message system_prompt, system_message (product_context top_product)]
            @ recent_messages (chat_messages @ [user_message prompt])]"
proof -
  obtain ev where sp:
    "search_products self prompt (ascii ''hybrid'') ALL_SEARCH_FIELDS
       = (Inr (top_product # others), ev)"
    using assms(2)
    by (cases "search_products self prompt (ascii ''hybrid'') ALL_SEARCH_FIELDS") simp
  have ev: "chat_requests ev = []"
    using chat_requests_search_products [of self prompt "ascii ''hybrid''" ALL_SEARCH_FIELDS]
    by (simp add: sp)
  define msgs where "msgs =
    [system_message system_prompt, system_message (product_context top_product)]
    @ recent_messages (chat_messages @ [user_message prompt])"
  define request where "request =
    \<lparr>model = gpt_deployment self, messages = msgs,
     temperature = or_float None DEFAULT_TEMPERATURE, max_tokens = or_int None MAX_TOKENS\<rparr>"
  obtain r where cc: "chat_completion self msgs None None = (r, [ChatCompletionsCreate request])"
    by (simp add: chat_completion_def request_def Let_def)
  have "snd (chat self chat_messages prompt) = ev @ [ChatCompletionsCreate request]"
  proof (cases r)
    case (Inl e)
    with assms(1) cc show ?thesis
      unfolding msgs_def
      by (simp add: chat_def Let_def bind_io_def try_except_def sp)
  next
    case (Inr reply)
    with assms(1) cc show ?thesis
      unfolding msgs_def
      by (simp add: chat_def Let_def bind_io_def try_except_def sp)
  qed
  then have "chat_requests (snd (chat self chat_messages prompt)) = [request]"
    by (simp add: chat_requests_simps ev)
  then show ?thesis
    by (simp add: request_def msgs_def)
qed

lemma coat_search_products:
  "fst (search_products coat_services (ascii ''warm coat'') (ascii ''hybrid'') ALL_SEARCH_FIELDS)
     = Inr [coat_product]"
  by (simp add: search_products_def search_body_def hybrid_search_def get_embedding_def
      run_search_def try_except_def bind_io_def coat_services_def process_results_def
      coat_document_def coat_product_def getattr_none_def or_int_def MAX_SEARCH_RESULTS_def
      ascii_def Let_def)

lemma warm_coat_nonempty: "ascii ''warm coat'' \<noteq> []"
  by (simp add: ascii_def)

lemma coat_chat_contents:
  "map (map content \<circ> messages)
     (chat_requests (snd (chat coat_services ten_turns (ascii ''warm coat'')))) =
     [[system_prompt, product_context coat_product,
       ascii ''q3'', ascii ''a3'', ascii ''q4'', ascii ''a4'', ascii ''q5'', ascii ''a5'',
       ascii ''warm coat'']]"
proof -
  have "map (map content \<circ> messages)
      (chat_requests (snd (chat coat_services ten_turns (ascii ''warm coat'')))) =
      map (map content)
        (map messages (chat_requests (snd (chat coat_services ten_turns (ascii ''warm coat'')))))"
    by simp
  also have "\<dots> = map (map content)
      [[system_message system_prompt, system_message (product_context coat_product)]
       @ recent_messages (ten_turns @ [user_message (ascii ''warm coat'')])]"
    by (simp only: chat_completion_messages [OF warm_coat_nonempty coat_search_products])
  also have "\<dots> = [[system_prompt, product_context coat_product,
       ascii ''q3'', ascii ''a3'', ascii ''q4'', ascii ''a4'', ascii ''q5'', ascii ''a5'',
       ascii ''warm coat'']]"
    by (simp add: recent_messages_def ten_turns_def system_message_def user_message_def
        assistant_message_def)
  finally show ?thesis .
qed

text \<open>
  C4, as stated, fails: on a transcript of ten earlier turns, what follows the two
  system turns is not the last 7 of those ten turns. The turn \<open>a2\<close>, seventh from
  the end of the earlier turns, is left out, and the user's new turn is the last message.
\<close>

theorem window_not_last_seven_prior:
  "map content (drop 3 ten_turns) =
     [ascii ''a2'', ascii ''q3'', ascii ''a3'', ascii ''q4'', ascii ''a4'', ascii ''q5'',
      ascii ''a5'']
   \<and> map (drop 2 \<circ> map content \<circ> messages)
       (chat_requests (snd (chat coat_services ten_turns (ascii ''warm coat''))))
       = [[ascii ''q3'', ascii ''a3'', ascii ''q4'', ascii ''a4'', ascii ''q5'', ascii ''a5'',
           ascii ''warm coat'']]
   \<and> map (drop 2 \<circ> map content \<circ> messages)
       (chat_requests (snd (chat coat_services ten_turns (ascii ''warm coat''))))
       \<noteq> [map content (drop 3 ten_turns)]"
proof -
  have p: "map content (drop 3 ten_turns) =
     [ascii ''a2'', ascii ''q3'', ascii ''a3'', ascii ''q4'', ascii ''a4'', ascii ''q5'',
      ascii ''a5'']"
    by (simp add: ten_turns_def user_message_def assistant_message_def)
  have "map (drop 2 \<circ> map content \<circ> messages)
      (chat_requests (snd (chat coat_services ten_turns (ascii ''warm coat'')))) =
      map (drop 2) (map (map content \<circ> messages)
        (chat_requests (snd (chat coat_services ten_turns (ascii ''warm coat'')))))"
    by simp
  then have f: "map (drop 2 \<circ> map content \<circ> messages)
      (chat_requests (snd (chat coat_services ten_turns (ascii ''warm coat'')))) =
      [[ascii ''q3'', ascii ''a3'', ascii ''q4'', ascii ''a4'', ascii ''q5'', ascii ''a5'',
        ascii ''warm coat'']]"
    by (simp only: coat_chat_contents) simp
  have "ascii ''q3'' \<noteq> ascii ''a2''"
    by (simp add: ascii_def)
  then have "[[ascii ''q3'', ascii ''a3'', ascii ''q4'', ascii ''a4'', ascii ''q5'', ascii ''a5'',
        ascii ''warm coat'']] \<noteq> [map content (drop 3 ten_turns)]"
    by (simp only: p) simp
  with p f show ?thesis
    by (simp only: simp_thms)
qed

text \<open>
  C4, amended. When the chatbot answers an utterance for which a product was found, on
  a transcript of 10 earlier turns, the completion client is called once, and the
  messages it receives are the system instruction, the system turn with the product
  context, and then the last 7 entries of the transcript as it stands once the user's
  new turn has been appended: the last 6 of the earlier turns and the new one, 9
  messages in all. The 4 oldest turns are left out, not summarised.
\<close>

theorem history_window:
  assumes "prompt \<noteq> []"
    and "length chat_messages = 10"
    and "fst (search_products self prompt (ascii ''hybrid'') ALL_SEARCH_FIELDS)
           = Inr (top_product # others)"
  shows "\<exists>request.
           chat_requests (snd (chat self chat_messages prompt)) = [request]
           \<and> messages request =
               [system_message system_prompt, system_message (product_context top_product)]
               @ drop 4 (chat_messages @ [user_message prompt])
           \<and> drop 4 (chat_messages @ [user_message prompt])
               = drop 4 chat_messages @ [user_message prompt]
           \<and> length (drop 4 (chat_messages @ [user_message prompt])) = 7
           \<and> length (messages request) = 9"
proof -
  obtain ev where sp:
    "search_products self prompt (ascii ''hybrid'') ALL_SEARCH_FIELDS
       = (Inr (top_product # others), ev)"
    using assms(3)
    by (cases "search_products self prompt (ascii ''hybrid'') ALL_SEARCH_FIELDS") simp
  have ev: "chat_requests ev = []"
    using chat_requests_search_products [of self prompt "ascii ''hybrid''" ALL_SEARCH_FIELDS]
    by (simp add: sp)
  have window: "recent_messages (chat_messages @ [user_message prompt])
      = drop 4 (chat_messages @ [user_message prompt])"
    using assms(2) by (simp add: recent_messages_def)
  define msgs where "msgs =
    [system_message system_prompt, system_message (product_context top_product)]
    @ drop 4 (chat_messages @ [user_message prompt])"
  define request where "request =
    \<lparr>model = gpt_deployment self, messages = msgs,
     temperature = or_float None DEFAULT_TEMPERATURE, max_tokens = or_int None MAX_TOKENS\<rparr>"
  obtain r where cc: "chat_completion self msgs None None = (r, [ChatCompletionsCreate request])"
    by (simp add: chat_completion_def request_def Let_def)
  have "snd (chat self chat_messages prompt) = ev @ [ChatCompletionsCreate request]"
  proof (cases r)
    case (Inl e)
    with assms(1) cc show ?thesis
      by (simp add: chat_def Let_def bind_io_def try_except_def sp window msgs_def)
  next
    case (Inr reply)
    with assms(1) cc show ?thesis
      by (simp add: chat_def Let_def bind_io_def try_except_def sp window msgs_def)
  qed
  then have "chat_requests (snd (chat self chat_messages prompt)) = [request]"
    by (simp add: chat_requests_simps ev)
  moreover have "messages request = msgs"
    by (simp add: request_def)
  moreover have "length msgs = 9"
    using assms(2) by (simp add: msgs_def)
  ultimately show ?thesis
    using assms(2) by (simp add: msgs_def)
qed

theorem history_window_witness:
  "ascii ''warm coat'' \<noteq> [] \<and> length ten_turns = 10
   \<and> fst (search_products coat_services (ascii ''warm coat'') (ascii ''hybrid'')
            ALL_SEARCH_FIELDS) = Inr [coat_product]
   \<and> (\<exists>request.
         chat_requests (snd (chat coat_services ten_turns (ascii ''warm coat''))) = [request]
         \<and> map content (messages request) =
             [system_prompt, product_context coat_product,
              ascii ''q3'', ascii ''a3'', ascii ''q4'', ascii ''a4'', ascii ''q5'', ascii ''a5'',
              ascii ''warm coat''])"
proof -
  have h1: "ascii ''warm coat'' \<noteq> []"
    by (simp add: ascii_def)
  have h2: "length ten_turns = 10"
    by (simp add: ten_turns_def)
  have w: "map content (drop 4 (ten_turns @ [user_message (ascii ''warm coat'')])) =
      [ascii ''q3'', ascii ''a3'', ascii ''q4'', ascii ''a4'', ascii ''q5'', ascii ''a5'',
       ascii ''warm coat'']"
    by (simp add: ten_turns_def user_message_def assistant_message_def)
  have c: "map content
      [system_message system_prompt, system_message (product_context coat_product)]
      = [system_prompt, product_context coat_product]"
    by (simp add: system_message_def)
  from history_window [OF h1 h2 coat_search_products]
  obtain request where
    a: "chat_requests (snd (chat coat_services ten_turns (ascii ''warm coat''))) = [request]"
    and b: "messages request =
      [system_message system_prompt, system_message (product_context coat_product)]
      @ drop 4 (ten_turns @ [user_message (ascii ''warm coat'')])"
    by (elim exE conjE) (rule that)
  have "map content (messages request) =
      [system_prompt, product_context coat_product]
      @ [ascii ''q3'', ascii ''a3'', ascii ''q4'', ascii ''a4'', ascii ''q5'', ascii ''a5'',
         ascii ''warm coat'']"
    by (simp only: b map_append c w)
  then have d: "map content (messages request) =
      [system_prompt, product_context coat_product,
       ascii ''q3'', ascii ''a3'', ascii ''q4'', ascii ''a4'', ascii ''q5'', ascii ''a5'',
       ascii ''warm coat'']"
    by (simp only: append.simps)
  have "\<exists>request.
      chat_requests (snd (chat coat_services ten_turns (ascii ''warm coat''))) = [request]
      \<and> map content (messages request) =
             [system_prompt, product_context coat_product,
              ascii ''q3'', ascii ''a3'', ascii ''q4'', ascii ''a4'', ascii ''q5'', ascii ''a5'',
              ascii ''warm coat'']"
    by (rule exI [of _ request]) (rule conjI [OF a d])
  then show ?thesis
    by (intro conjI) (rule h1, rule h2, rule coat_search_products, assumption)
qed

subsection \<open>The grounding context\<close>

lemma str_nat_digit: "n < 10 \<Longrightarrow> str_nat n = [48 + n]"
  by (simp add: str_nat.simps [of n])

lemma str_nat_step: "10 \<le> n \<Longrightarrow> str_nat n = str_nat (n div 10) @ [48 + n mod 10]"
  by (simp add: str_nat.simps [of n])

lemma group_thousands_short: "length ds \<le> 3 \<Longrightarrow> group_thousands ds = ds"
  by (simp add: group_thousands.simps [of ds])

lemma group_thousands_step:
  "3 < length ds \<Longrightarrow>
     group_thousands ds =
       group_thousands (take (length ds - 3) ds) @ [44] @ drop (length ds - 3) ds"
  by (simp add: group_thousands.simps [of ds])

lemma format_25000: "format_int_comma 25000 = ascii ''25,000''"
  by (simp add: format_int_comma_def ascii_def str_nat_digit str_nat_step
      group_thousands_short group_thousands_step)

lemma round_half_even_near:
  assumes "of_int k - 1 / 2 < y" and "y < of_int k + 1 / 2"
  shows "round_half_even y = k"
proof -
  define f where "f = \<lfloor>y\<rfloor>"
  have lo: "of_int f \<le> y"
    by (simp add: f_def)
  have "y < of_int (\<lfloor>y\<rfloor> + 1)"
    using floor_correct [of y] by (rule conjunct2)
  then have hi: "y < of_int f + 1"
    by (simp only: f_def of_int_add of_int_1)
  have "(of_int k :: rat) < of_int f + 3 / 2"
    using assms(1) hi by linarith
  then have "(of_int k :: rat) < of_int (f + 2)"
    by simp
  then have k_hi: "k \<le> f + 1"
    by (simp only: of_int_less_iff)
  have "(of_int f :: rat) < of_int k + 1 / 2"
    using assms(2) lo by linarith
  then have "(of_int f :: rat) < of_int (k + 1)"
    by simp
  then have k_lo: "f \<le> k"
    by (simp only: of_int_less_iff)
  show ?thesis
  proof (cases "y - of_int f < 1 / 2")
    case True
    then have "(of_int k :: rat) < of_int f + 1"
      using assms(1) by linarith
    then have "(of_int k :: rat) < of_int (f + 1)"
      by simp
    then have "k < f + 1"
      by (simp only: of_int_less_iff)
    with k_lo have "f = k"
      by simp
    with True show ?thesis
      by (simp add: round_half_even_def Let_def f_def)
  next
    case False
    then have "(of_int f :: rat) < of_int k"
      using assms(2) by linarith
    then have "f < k"
      by (simp only: of_int_less_iff)
    with k_hi have k: "k = f + 1"
      by simp
    have "y - of_int f \<noteq> 1 / 2"
    proof
      assume "y - of_int f = 1 / 2"
      then have "y = of_int f + 1 / 2"
        by linarith
      with assms(1) have "(of_int k :: rat) < of_int f + 1"
        by linarith
      then have "(of_int k :: rat) < of_int (f + 1)"
        by simp
      then have "k < f + 1"
        by (simp only: of_int_less_iff)
      with k show False
        by simp
    qed
    with False have "1 / 2 < y - of_int f"
      by linarith
    with False k show ?thesis
      by (simp add: round_half_even_def Let_def f_def)
  qed
qed

lemma format_4f_near_0_87:
  assumes "86995 / 100000 < x" and "x < 87005 / 100000"
  shows "format_4f x = ascii ''0.8700''"
proof -
  have pos: "0 < x"
    using assms(1) by linarith
  have "round_half_even (x * 10000) = 8700"
  proof (rule round_half_even_near)
    show "of_int 8700 - 1 / 2 < x * 10000"
      using assms(1) by simp
    show "x * 10000 < of_int 8700 + 1 / 2"
      using assms(2) by simp
  qed
  with pos have "round_half_even (\<bar>x\<bar> * 10000) = 8700"
    by simp
  with pos show ?thesis
    by (simp add: format_4f_def Let_def zero_pad_def ascii_def str_nat_digit str_nat_step)
qed

lemma context_price_and_tags:
  assumes "price q = Some 25000"
    and "imageTags q = Some [ascii ''winter'', ascii ''coat'']"
  shows "sublist (ascii ''25,000'') (product_context q)
         \<and> sublist (ascii ''winter, coat'') (product_context q)"
proof -
  have price: "price_str q = ascii ''25,000'' @ won"
    by (simp add: price_str_def assms(1) format_25000)
  have tags: "tags_str q = ascii ''winter, coat''"
    by (simp add: tags_str_def assms(2) ascii_def)
  have "product_context q =
      (label_name @ or_str (name q) (ascii ''N/A'')
       @ label_brand @ or_str (brand q) (ascii ''N/A'') @ label_price)
      @ ascii ''25,000''
      @ (won @ label_description @ or_str (description q) (ascii ''N/A'')
         @ label_imageCaption @ or_str (imageCaption q) (ascii ''N/A'')
         @ label_imageDescription @ or_str (imageDescription q) (ascii ''N/A'')
         @ label_tags @ tags_str q @ label_score @ score_str q @ [10])"
    by (simp only: product_context_def price append_assoc)
  then have 1: "sublist (ascii ''25,000'') (product_context q)"
    unfolding sublist_def by blast
  have "product_context q =
      (label_name @ or_str (name q) (ascii ''N/A'')
       @ label_brand @ or_str (brand q) (ascii ''N/A'') @ label_price @ price_str q
       @ label_description @ or_str (description q) (ascii ''N/A'')
       @ label_imageCaption @ or_str (imageCaption q) (ascii ''N/A'')
       @ label_imageDescription @ or_str (imageDescription q) (ascii ''N/A'')
       @ label_tags)
      @ ascii ''winter, coat'' @ (label_score @ score_str q @ [10])"
    by (simp only: product_context_def tags append_assoc)
  then have 2: "sublist (ascii ''winter, coat'') (product_context q)"
    unfolding sublist_def by blast
  from 1 2 show ?thesis
    by (intro conjI)
qed

text \<open>
  What \<open>main\<close> does with a score, were one to reach it: a score within half a
  ten-thousandth of 0.87, as the double \<open>0.87\<close> is, is printed as \<open>0.8700\<close>.
\<close>

lemma context_score_given:
  assumes "score q = Some x" and "86995 / 100000 < x" and "x < 87005 / 100000"
  shows "sublist (ascii ''0.8700'') (product_context q)"
proof -
  have score: "score_str q = ascii ''0.8700''"
    by (simp add: score_str_def assms(1) format_4f_near_0_87 [OF assms(2,3)])
  have "product_context q =
      (label_name @ or_str (name q) (ascii ''N/A'')
       @ label_brand @ or_str (brand q) (ascii ''N/A'') @ label_price @ price_str q
       @ label_description @ or_str (description q) (ascii ''N/A'')
       @ label_imageCaption @ or_str (imageCaption q) (ascii ''N/A'')
       @ label_imageDescription @ or_str (imageDescription q) (ascii ''N/A'')
       @ label_tags @ tags_str q @ label_score)
      @ ascii ''0.8700'' @ [10]"
    by (simp only: product_context_def score append_assoc)
  then show ?thesis
    unfolding sublist_def by blast
qed

lemma float_0_87_bounds: "86995 / 100000 < float_0_87" "float_0_87 < 87005 / 100000"
  by (simp_all add: float_0_87_def)

lemma context_score_none:
  assumes "score q = None"
  shows "suffix (label_score @ ascii ''N/A'' @ [10]) (product_context q)"
proof -
  have score: "score_str q = ascii ''N/A''"
    by (simp add: score_str_def assms)
  have "product_context q =
      (label_name @ or_str (name q) (ascii ''N/A'')
       @ label_brand @ or_str (brand q) (ascii ''N/A'') @ label_price @ price_str q
       @ label_description @ or_str (description q) (ascii ''N/A'')
       @ label_imageCaption @ or_str (imageCaption q) (ascii ''N/A'')
       @ label_imageDescription @ or_str (imageDescription q) (ascii ''N/A'')
       @ label_tags @ tags_str q)
      @ (label_score @ ascii ''N/A'' @ [10])"
    by (simp only: product_context_def score append_assoc)
  then show ?thesis
    by (rule suffixI)
qed

lemma coat_context_no_seven: "55 \<notin> set (product_context coat_product)"
  by (simp add: product_context_def coat_product_def or_str_def price_str_def tags_str_def
      score_str_def format_25000 ascii_def won_def label_name_def label_brand_def
      label_price_def label_description_def label_imageCaption_def
      label_imageDescription_def label_tags_def label_score_def)

lemma coat_context_no_score: "\<not> sublist (ascii ''0.8700'') (product_context coat_product)"
proof
  assume "sublist (ascii ''0.8700'') (product_context coat_product)"
  then have "set (ascii ''0.8700'') \<subseteq> set (product_context coat_product)"
    by (rule set_mono_sublist)
  moreover have "55 \<in> set (ascii ''0.8700'')"
    by (simp add: ascii_def)
  ultimately show False
    using coat_context_no_seven by blast
qed

lemma coat_first_chat_contents:
  "map (map content \<circ> messages)
     (chat_requests (snd (chat coat_services [] (ascii ''warm coat'')))) =
     [[system_prompt, product_context coat_product, ascii ''warm coat'']]"
proof -
  have "map (map content \<circ> messages)
      (chat_requests (snd (chat coat_services [] (ascii ''warm coat'')))) =
      map (map content)
        (map messages (chat_requests (snd (chat coat_services [] (ascii ''warm coat'')))))"
    by simp
  also have "\<dots> = map (map content)
      [[system_message system_prompt, system_message (product_context coat_product)]
       @ recent_messages ([] @ [user_message (ascii ''warm coat'')])]"
    by (simp only: chat_completion_messages [OF warm_coat_nonempty coat_search_products])
  also have "\<dots> = [[system_prompt, product_context coat_product, ascii ''warm coat'']]"
    by (simp add: recent_messages_def system_message_def user_message_def)
  finally show ?thesis .
qed

text \<open>
  C1 fails on the code. The backend returns one result with price 25000, tags
  \<open>["winter", "coat"]\<close> and, under its key \<open>@search.score\<close>, the score 0.87.
  \<open>_process_results\<close> asks for the score with \<open>getattr\<close>, which does not read keys,
  so the product reaches the chatbot with score \<open>None\<close>. The grounding context sent to
  the completion client contains \<open>25,000\<close> and \<open>winter, coat\<close>, but its score line
  reads \<open>N/A\<close> and \<open>0.8700\<close> occurs nowhere in it.
\<close>

theorem score_lost_before_context:
  "doc_price coat_document = Val 25000
   \<and> doc_imageTags coat_document = Val [ascii ''winter'', ascii ''coat'']
   \<and> doc_search_score coat_document = Val float_0_87
   \<and> fst (search_products coat_services (ascii ''warm coat'') (ascii ''hybrid'')
            ALL_SEARCH_FIELDS) = Inr [coat_product]
   \<and> score coat_product = None
   \<and> map (map content \<circ> messages)
         (chat_requests (snd (chat coat_services [] (ascii ''warm coat''))))
       = [[system_prompt, product_context coat_product, ascii ''warm coat'']]
   \<and> sublist (ascii ''25,000'') (product_context coat_product)
   \<and> sublist (ascii ''winter, coat'') (product_context coat_product)
   \<and> suffix (label_score @ ascii ''N/A'' @ [10]) (product_context coat_product)
   \<and> \<not> sublist (ascii ''0.8700'') (product_context coat_product)"
proof -
  have d: "doc_price coat_document = Val 25000"
    "doc_imageTags coat_document = Val [ascii ''winter'', ascii ''coat'']"
    "doc_search_score coat_document = Val float_0_87"
    by (simp_all add: coat_document_def)
  have p: "price coat_product = Some 25000"
    "imageTags coat_product = Some [ascii ''winter'', ascii ''coat'']"
    "score coat_product = None"
    by (simp_all add: coat_product_def)
  from d p(3) coat_search_products coat_first_chat_contents
    context_price_and_tags [OF p(1,2)] context_score_none [OF p(3)] coat_context_no_score
  show ?thesis
    by (intro conjI) simp_all
qed


end
